theory Spec2Isabelle
  imports Complex_Main
begin

section \<open>Floats, molecules, conformers and toolkit errors\<close>

text \<open>
  A Python float, which is a C double: a finite value, read as the real number it denotes,
  an infinity, or NaN. The sign of a zero is not kept: subtraction, multiplication,
  addition, square root and comparison, the operations used here, do not tell the two
  zeros apart in what they return to a comparison.
\<close>

datatype double = Fin real | PInf | NInf | NaN

text \<open>Python's \<^verbatim>\<open><\<close> and \<^verbatim>\<open><=\<close> on floats: exact on the values, false with a NaN.\<close>

fun float_lt :: "double \<Rightarrow> double \<Rightarrow> bool" where
  "float_lt NaN _ = False"
| "float_lt _ NaN = False"
| "float_lt (Fin x) (Fin y) = (x < y)"
| "float_lt _ NInf = False"
| "float_lt PInf _ = False"
| "float_lt NInf _ = True"
| "float_lt (Fin x) PInf = True"

fun float_le :: "double \<Rightarrow> double \<Rightarrow> bool" where
  "float_le NaN _ = False"
| "float_le _ NaN = False"
| "float_le (Fin x) (Fin y) = (x \<le> y)"
| "float_le NInf _ = True"
| "float_le _ PInf = True"
| "float_le _ NInf = False"
| "float_le PInf _ = False"

text \<open>
  The generator of \<^verbatim>\<open>ssBind/generator/AbstractConformerGenerator.py\<close> works on
  RDKit molecules. A molecule is a topology (atoms and bonds) together with its conformers;
  a conformer is the list of its atom positions, indexed by atom, each position three
  doubles.

  The accessors of the toolkit raise where the molecule has no conformer or the atom index
  is out of range; both failures are values of \<open>error\<close>.
\<close>

type_synonym Point3D = "double \<times> double \<times> double"

record Mol =
  atoms :: "string list"
  bonds :: "(nat \<times> nat) list"
  conformers :: "Point3D list list"

datatype error =
    Exception string
  | ValueError
  | RuntimeError
  | KeyError
  | TypeError
  | AttributeError
  | SystemExit
  | OSError

text \<open>\<^verbatim>\<open>mol.GetConformer()\<close>: the first conformer, \<^verbatim>\<open>ValueError\<close> when there is none.\<close>

definition GetConformer :: "Mol \<Rightarrow> error + Point3D list" where
  "GetConformer m = (case conformers m of [] \<Rightarrow> Inl ValueError | c # _ \<Rightarrow> Inr c)"

text \<open>\<^verbatim>\<open>mol.GetConformer(0)\<close>: conformer ids are the positions in the list.\<close>

definition GetConformerId :: "Mol \<Rightarrow> nat \<Rightarrow> error + Point3D list" where
  "GetConformerId m cid =
     (if cid < length (conformers m) then Inr (conformers m ! cid) else Inl ValueError)"

text \<open>\<^verbatim>\<open>conf.GetAtomPosition(i)\<close>: a range error outside the conformer.\<close>

definition GetAtomPosition :: "Point3D list \<Rightarrow> nat \<Rightarrow> error + Point3D" where
  "GetAtomPosition c i = (if i < length c then Inr (c ! i) else Inl RuntimeError)"

section \<open>The toolkit the generator calls\<close>

text \<open>
  Maximum common substructure search, substructure matching, embedding, force-field
  minimisation and rigid alignment are RDKit's; the generator only composes them. They are
  parameters of the model. \<open>FindMCS\<close> receives the keyword arguments of the call.
\<close>

datatype AtomCompare = AtomCompareAny | AtomCompareElements | AtomCompareIsotopes
datatype BondCompare = BondCompareAny | BondCompareOrder | BondCompareOrderExact

record MCSArgs =
  completeRingsOnly :: bool
  matchValences :: bool
  ringMatchesRingOnly :: bool
  atomCompare :: AtomCompare
  bondCompare :: BondCompare

text \<open>
  A force-field handle holds the conformer it was built for and the positional restraints
  added so far, each as (atom index, maximal displacement, force constant).
\<close>

record ForceField =
  ff_confId :: nat
  constraints :: "(nat \<times> real \<times> real) list"

text \<open>
  \<open>PointSub\<close> and \<open>PointLength\<close> are the subtraction and the \<^verbatim>\<open>Length()\<close> of RDKit's
  \<^verbatim>\<open>Point3D\<close>: they compute in double precision, and what they return is what the
  generator compares. \<open>EmbedMolecule\<close> returns the molecule as the call left it and the
  status code (the new conformer's id, \<open>-1\<close> when embedding failed).
  \<open>UFFGetMoleculeForceField\<close> is \<open>None\<close> where the toolkit returns no force field.
  \<open>Minimize\<close> returns the moved molecule and the toolkit's code: \<open>0\<close> when converged,
  non-zero when more iterations are needed. \<open>AlignMol\<close> returns the moved probe molecule,
  or raises.
\<close>

record toolkit =
  PointSub :: "Point3D \<Rightarrow> Point3D \<Rightarrow> Point3D"
  PointLength :: "Point3D \<Rightarrow> double"
  FindMCS :: "MCSArgs \<Rightarrow> Mol \<Rightarrow> Mol \<Rightarrow> string"
  GetSubstructMatches :: "Mol \<Rightarrow> string \<Rightarrow> bool \<Rightarrow> nat list list"
  EmbedMolecule :: "Mol \<Rightarrow> (nat \<rightharpoonup> Point3D) \<Rightarrow> int \<Rightarrow> Mol \<times> int"
  UFFGetMoleculeForceField :: "Mol \<Rightarrow> nat \<Rightarrow> ForceField option"
  Minimize :: "ForceField \<Rightarrow> Mol \<Rightarrow> nat \<Rightarrow> Mol \<times> int"
  AlignMol :: "Mol \<Rightarrow> Mol \<Rightarrow> (nat \<times> nat) list \<Rightarrow> error + Mol"

section \<open>The Atom Correspondence Builder\<close>

text \<open>
  One entry of the list comprehension of \<^verbatim>\<open>_MCS_AtomMap\<close>: the distance between
  the reference atom \<open>i0\<close> and the ligand atom \<open>ii\<close>, reading the reference first; the
  difference and its length are the toolkit's.
\<close>

fun pair_dist :: "toolkit \<Rightarrow> Mol \<Rightarrow> Mol \<Rightarrow> nat \<times> nat \<Rightarrow> error + double" where
  "pair_dist tk ref ligand (i0, ii) =
     (case GetConformer ref of Inl e \<Rightarrow> Inl e | Inr rc \<Rightarrow>
      (case GetAtomPosition rc i0 of Inl e \<Rightarrow> Inl e | Inr p \<Rightarrow>
       (case GetConformer ligand of Inl e \<Rightarrow> Inl e | Inr lc \<Rightarrow>
        (case GetAtomPosition lc ii of Inl e \<Rightarrow> Inl e | Inr q \<Rightarrow>
           Inr (PointLength tk (PointSub tk p q))))))"

text \<open>The whole comprehension: every distance is computed before any is compared.\<close>

fun dist_list :: "toolkit \<Rightarrow> Mol \<Rightarrow> Mol \<Rightarrow> (nat \<times> nat) list \<Rightarrow> error + double list" where
  "dist_list tk ref ligand [] = Inr []"
| "dist_list tk ref ligand (p # ps) =
     (case pair_dist tk ref ligand p of Inl e \<Rightarrow> Inl e | Inr d \<Rightarrow>
      (case dist_list tk ref ligand ps of Inl e \<Rightarrow> Inl e | Inr ds \<Rightarrow> Inr (d # ds)))"

text \<open>
  The inner loop over the ligand matches for one reference match: \<open>Inr (Some m)\<close> is the
  \<^verbatim>\<open>return\<close> inside the loop, \<open>Inr None\<close> the loop running to its end.
\<close>

fun lig_loop ::
  "toolkit \<Rightarrow> Mol \<Rightarrow> Mol \<Rightarrow> double \<Rightarrow> nat list \<Rightarrow> nat list list
     \<Rightarrow> error + (nat \<times> nat) list option" where
  "lig_loop tk ligand ref distTol match_ref [] = Inr None"
| "lig_loop tk ligand ref distTol match_ref (match_lig # rest) =
     (case dist_list tk ref ligand (zip match_ref match_lig) of
        Inl e \<Rightarrow> Inl e
      | Inr ds \<Rightarrow>
          if list_all (\<lambda>d. float_lt d distTol) ds then Inr (Some (zip match_ref match_lig))
          else lig_loop tk ligand ref distTol match_ref rest)"

text \<open>The outer loop over the reference matches, and the \<^verbatim>\<open>raise\<close> after it.\<close>

fun ref_loop ::
  "toolkit \<Rightarrow> Mol \<Rightarrow> Mol \<Rightarrow> double \<Rightarrow> nat list list \<Rightarrow> nat list list
     \<Rightarrow> error + (nat \<times> nat) list" where
  "ref_loop tk ligand ref distTol [] matches_lig = Inl (Exception ''ERROR: No MCS found!'')"
| "ref_loop tk ligand ref distTol (match_ref # rest) matches_lig =
     (case lig_loop tk ligand ref distTol match_ref matches_lig of
        Inl e \<Rightarrow> Inl e
      | Inr (Some m) \<Rightarrow> Inr m
      | Inr None \<Rightarrow> ref_loop tk ligand ref distTol rest matches_lig)"

text \<open>
  The keyword arguments of the \<^verbatim>\<open>rdFMCS.FindMCS\<close> call: \<^verbatim>\<open>completeRingsOnly=True\<close>
  and \<^verbatim>\<open>matchValences=False\<close> are passed, every other keyword keeps the value the
  toolkit gives it.
\<close>

definition mcs_call_args :: "MCSArgs \<Rightarrow> MCSArgs" where
  "mcs_call_args defaults = defaults\<lparr>completeRingsOnly := True, matchValences := False\<rparr>"

definition MCS_AtomMap ::
  "toolkit \<Rightarrow> MCSArgs \<Rightarrow> Mol \<Rightarrow> Mol \<Rightarrow> double \<Rightarrow> error + (nat \<times> nat) list" where
  "MCS_AtomMap tk defaults ligand ref distTol =
     (let submol = FindMCS tk (mcs_call_args defaults) ligand ref;
          matches_ref = GetSubstructMatches tk ref submol False;
          matches_lig = GetSubstructMatches tk ligand submol False
      in ref_loop tk ligand ref distTol matches_ref matches_lig)"

text \<open>
  The constructor. Python objects live in a store: an address holds a molecule, and a new
  object takes the next free address. The generator keeps the addresses of the ligand and
  of the reference, and the two pairings.
\<close>

record heap =
  objs :: "nat \<Rightarrow> Mol"
  next_addr :: nat

record kwargs =
  kw_nprocs :: "int option"
  kw_numconf :: "int option"
  kw_distTol :: "double option"

record AbstractConformerGenerator =
  query_molecule :: nat
  reference_substructure :: nat
  receptor_file :: string
  nprocs :: int
  numconf :: int
  mappingRefToLig :: "(nat \<times> nat) list"
  mappingLigToRef :: "(nat \<times> nat) list"

definition init ::
  "toolkit \<Rightarrow> MCSArgs \<Rightarrow> heap \<Rightarrow> nat \<Rightarrow> nat \<Rightarrow> string \<Rightarrow> kwargs
     \<Rightarrow> error + AbstractConformerGenerator" where
  "init tk defaults h query_mol reference_sub receptor kw =
     (let distTol = (case kw_distTol kw of None \<Rightarrow> Fin 1 | Some t \<Rightarrow> t) in
      case MCS_AtomMap tk defaults (objs h query_mol) (objs h reference_sub) distTol of
        Inl e \<Rightarrow> Inl e
      | Inr m \<Rightarrow>
          Inr \<lparr>query_molecule = query_mol,
               reference_substructure = reference_sub,
               receptor_file = receptor,
               nprocs = (case kw_nprocs kw of None \<Rightarrow> 1 | Some n \<Rightarrow> n),
               numconf = (case kw_numconf kw of None \<Rightarrow> 1 | Some n \<Rightarrow> n),
               mappingRefToLig = m,
               mappingLigToRef = map (\<lambda>(i, j). (j, i)) m\<rparr>)"

section \<open>Embedding, minimisation and alignment\<close>

text \<open>\<^verbatim>\<open>deepcopy(mol)\<close>: a new object at the next free address, with the same value.\<close>

definition deepcopy :: "heap \<Rightarrow> nat \<Rightarrow> heap \<times> nat" where
  "deepcopy h a =
     (h\<lparr>objs := (objs h)(next_addr h := objs h a), next_addr := Suc (next_addr h)\<rparr>,
      next_addr h)"

text \<open>
  \<^verbatim>\<open>_alignToRef\<close>: the toolkit moves the molecule at \<open>ligand\<close> onto the reference.
  The store is returned in both outcomes.
\<close>

definition alignToRef ::
  "toolkit \<Rightarrow> AbstractConformerGenerator \<Rightarrow> heap \<Rightarrow> nat \<Rightarrow> heap \<times> (error + unit)" where
  "alignToRef tk self h ligand =
     (case AlignMol tk (objs h ligand) (objs h (reference_substructure self))
             (mappingLigToRef self) of
        Inl e \<Rightarrow> (h, Inl e)
      | Inr m \<Rightarrow> (h\<lparr>objs := (objs h)(ligand := m)\<rparr>, Inr ()))"

text \<open>The loop of \<^verbatim>\<open>_embed\<close> that fills \<^verbatim>\<open>coordMap\<close>, keyed by the ligand index.\<close>

fun coordMap_loop ::
  "Point3D list \<Rightarrow> (nat \<times> nat) list \<Rightarrow> (nat \<rightharpoonup> Point3D) \<Rightarrow> error + (nat \<rightharpoonup> Point3D)" where
  "coordMap_loop ligConf [] coordMap = Inr coordMap"
| "coordMap_loop ligConf ((_, ligIdx) # rest) coordMap =
     (case GetAtomPosition ligConf ligIdx of
        Inl e \<Rightarrow> Inl e
      | Inr ligPtI \<Rightarrow> coordMap_loop ligConf rest (coordMap(ligIdx \<mapsto> ligPtI)))"

text \<open>
  \<^verbatim>\<open>_embed\<close>. The value \<^verbatim>\<open>EmbedMolecule\<close> returns is dropped by the source; it is
  bound to \<open>status\<close> here and not used.
\<close>

definition embed ::
  "toolkit \<Rightarrow> AbstractConformerGenerator \<Rightarrow> heap \<Rightarrow> nat \<Rightarrow> int \<Rightarrow> heap \<times> (error + nat)" where
  "embed tk self h ligand seed =
     (case GetConformerId (objs h ligand) 0 of
        Inl e \<Rightarrow> (h, Inl e)
      | Inr ligConf \<Rightarrow>
          (case coordMap_loop ligConf (mappingRefToLig self) Map.empty of
             Inl e \<Rightarrow> (h, Inl e)
           | Inr coordMap \<Rightarrow>
               (let (h1, l_embed) = deepcopy h ligand;
                    (m, status) = EmbedMolecule tk (objs h1 l_embed) coordMap seed;
                    h2 = h1\<lparr>objs := (objs h1)(l_embed := m)\<rparr>
                in case alignToRef tk self h2 l_embed of
                     (h3, Inl e) \<Rightarrow> (h3, Inl e)
                   | (h3, Inr _) \<Rightarrow> (h3, Inr l_embed))))"

text \<open>\<^verbatim>\<open>ff.UFFAddPositionConstraint(idx, maxDispl, forceConstant)\<close>.\<close>

definition UFFAddPositionConstraint :: "ForceField \<Rightarrow> nat \<Rightarrow> real \<Rightarrow> real \<Rightarrow> ForceField" where
  "UFFAddPositionConstraint ff idx maxDispl forceConstant =
     ff\<lparr>constraints := constraints ff @ [(idx, maxDispl, forceConstant)]\<rparr>"

text \<open>
  Lines 76 and 77 of \<^verbatim>\<open>_minimize\<close>: the restraints, one for each \<open>i\<close> of
  \<^verbatim>\<open>[i for i, j in self._mappingRefToLig]\<close>.
\<close>

fun add_constraints :: "ForceField \<Rightarrow> nat list \<Rightarrow> ForceField" where
  "add_constraints ff [] = ff"
| "add_constraints ff (atidx # rest) =
     add_constraints (UFFAddPositionConstraint ff atidx 0 200) rest"

definition minimize_constraints :: "AbstractConformerGenerator \<Rightarrow> ForceField \<Rightarrow> ForceField" where
  "minimize_constraints self ff =
     add_constraints ff (map (\<lambda>(i, j). i) (mappingRefToLig self))"

text \<open>
  Lines 78 to 80: \<^verbatim>\<open>while ff.Minimize(maxIts=4) and maxIters > 0: maxIters -= 1\<close>.
  \<open>Minimize\<close> is called before the counter is looked at. The last argument counts the
  calls; the source has no such variable.
\<close>

function minimize_loop :: "toolkit \<Rightarrow> ForceField \<Rightarrow> Mol \<Rightarrow> int \<Rightarrow> nat \<Rightarrow> Mol \<times> nat" where
  "minimize_loop tk ff m maxIters calls =
     (let r = Minimize tk ff m 4 in
      if snd r \<noteq> 0 \<and> maxIters > 0
      then minimize_loop tk ff (fst r) (maxIters - 1) (Suc calls)
      else (fst r, Suc calls))"
  by pat_completeness auto
termination
  by (relation "measure (\<lambda>(tk, ff, m, maxIters, calls). nat maxIters)") auto

definition minimize ::
  "toolkit \<Rightarrow> AbstractConformerGenerator \<Rightarrow> heap \<Rightarrow> nat \<Rightarrow> heap \<times> (error + nat)" where
  "minimize tk self h ligand =
     (let (h1, mcp) = deepcopy h ligand in
      case UFFGetMoleculeForceField tk (objs h1 mcp) 0 of
        None \<Rightarrow> (h1, Inl AttributeError)
      | Some ff0 \<Rightarrow>
          (let ff = minimize_constraints self ff0;
               (m, calls) = minimize_loop tk ff (objs h1 mcp) 10 0;
               h2 = h1\<lparr>objs := (objs h1)(mcp := m)\<rparr>
           in case alignToRef tk self h2 mcp of
                (h3, Inl e) \<Rightarrow> (h3, Inl e)
              | (h3, Inr _) \<Rightarrow> (h3, Inr mcp)))"

section \<open>Reading a molecule from a file\<close>

text \<open>
  \<^verbatim>\<open>MolFromInput\<close> of \<^verbatim>\<open>ssBind/io.py\<close>. The file system and RDKit's readers are
  parameters: a reader raises, returns no molecule (\<open>None\<close>) or returns one. Paths are
  POSIX paths of 8-bit characters.
\<close>

record io_env =
  isfile :: "string \<Rightarrow> bool"
  MolFromMolFile :: "string \<Rightarrow> error + Mol option"
  MolFromMol2File :: "string \<Rightarrow> error + Mol option"
  MolFromPDBFile :: "string \<Rightarrow> error + Mol option"

definition FILE_PARSERS :: "io_env \<Rightarrow> (string \<times> (string \<Rightarrow> error + Mol option)) list" where
  "FILE_PARSERS env =
     [(''mol'', MolFromMolFile env),
      (''mol2'', MolFromMol2File env),
      (''pdb'', MolFromPDBFile env),
      (''sdf'', MolFromMolFile env)]"

text \<open>\<^verbatim>\<open>str.rfind\<close> of one character: the last index holding it, \<open>-1\<close> when absent.\<close>

fun rfind_from :: "string \<Rightarrow> char \<Rightarrow> nat \<Rightarrow> int" where
  "rfind_from p c 0 = -1"
| "rfind_from p c (Suc n) = (if p ! n = c then int n else rfind_from p c n)"

definition rfind :: "string \<Rightarrow> char \<Rightarrow> int" where
  "rfind p c = rfind_from p c (length p)"

text \<open>
  \<^verbatim>\<open>os.path.splitext\<close>: the extension starts at the last dot after the last slash,
  unless only dots stand between that slash and the dot.
\<close>

definition splitext :: "string \<Rightarrow> string \<times> string" where
  "splitext p =
     (let sepIndex = rfind p CHR ''/'';
          dotIndex = rfind p CHR ''.''
      in if dotIndex > sepIndex \<and>
            list_ex (\<lambda>i. p ! i \<noteq> CHR ''.'') [nat (sepIndex + 1) ..< nat dotIndex]
         then (take (nat dotIndex) p, drop (nat dotIndex) p)
         else (p, []))"

text \<open>\<^verbatim>\<open>str.lower\<close> on the letters A to Z.\<close>

definition lower_char :: "char \<Rightarrow> char" where
  "lower_char c =
     (if 65 \<le> (of_char c :: nat) \<and> (of_char c :: nat) \<le> 90
      then char_of ((of_char c :: nat) + 32) else c)"

definition lower :: "string \<Rightarrow> string" where
  "lower s = map lower_char s"

definition mol_format_of :: "string \<Rightarrow> string" where
  "mol_format_of molecule = lower (drop 1 (snd (splitext molecule)))"

text \<open>
  The fall-back loop over \<^verbatim>\<open>content_reader.values()\<close>: a \<^verbatim>\<open>RuntimeError\<close> or a
  \<open>None\<close> moves on to the next reader, and \<^verbatim>\<open>TypeError\<close> is raised after the last.
\<close>

fun fallback :: "string \<Rightarrow> (string \<Rightarrow> error + Mol option) list \<Rightarrow> error + Mol option" where
  "fallback molecule [] = Inl TypeError"
| "fallback molecule (reader # rest) =
     (case reader molecule of
        Inl RuntimeError \<Rightarrow> fallback molecule rest
      | Inl e \<Rightarrow> Inl e
      | Inr None \<Rightarrow> fallback molecule rest
      | Inr (Some mol) \<Rightarrow> Inr (Some mol))"

definition MolFromInput :: "io_env \<Rightarrow> string \<Rightarrow> error + Mol option" where
  "MolFromInput env molecule =
     (if \<not> isfile env molecule then Inl SystemExit
      else
        let mol_format = mol_format_of molecule in
        if mol_format \<noteq> [] then
          (case map_of (FILE_PARSERS env) mol_format of
             None \<Rightarrow> Inl TypeError
           | Some reader \<Rightarrow>
               (case reader molecule of
                  Inl KeyError \<Rightarrow> Inl TypeError
                | Inl e \<Rightarrow> Inl e
                | Inr r \<Rightarrow> Inr r))
        else fallback molecule (map snd (FILE_PARSERS env)))"

section \<open>The correspondence as the specification words it\<close>

text \<open>
  The position of an atom in the molecule's first conformer, the test that every paired
  distance of a combination is below the tolerance, and the first combination that passes
  it, enumerating the reference matches in the outer position. These follow the
  specification; they are compared with \<open>MCS_AtomMap\<close> below. The distance is a
  parameter of the test: \<open>toolkit_distance\<close> is the distance as the toolkit computes it,
  \<open>euclidean_distance\<close> the Euclidean distance of two finite positions as a real number.
\<close>

definition atom_pos :: "Mol \<Rightarrow> nat \<Rightarrow> Point3D" where
  "atom_pos m i = hd (conformers m) ! i"

definition toolkit_distance :: "toolkit \<Rightarrow> Point3D \<Rightarrow> Point3D \<Rightarrow> double" where
  "toolkit_distance tk p q = PointLength tk (PointSub tk p q)"

fun euclidean_distance :: "Point3D \<Rightarrow> Point3D \<Rightarrow> double" where
  "euclidean_distance (Fin x1, Fin y1, Fin z1) (Fin x2, Fin y2, Fin z2) =
     Fin (sqrt ((x1 - x2)\<^sup>2 + (y1 - y2)\<^sup>2 + (z1 - z2)\<^sup>2))"
| "euclidean_distance p q = NaN"

definition within_tolerance ::
  "(Point3D \<Rightarrow> Point3D \<Rightarrow> double) \<Rightarrow> Mol \<Rightarrow> Mol \<Rightarrow> double \<Rightarrow> nat list \<times> nat list \<Rightarrow> bool" where
  "within_tolerance distance ligand ref distTol c =
     list_all (\<lambda>(i0, ii). float_lt (distance (atom_pos ref i0) (atom_pos ligand ii)) distTol)
       (zip (fst c) (snd c))"

definition first_combination ::
  "(Point3D \<Rightarrow> Point3D \<Rightarrow> double) \<Rightarrow> Mol \<Rightarrow> Mol \<Rightarrow> double \<Rightarrow> nat list list \<Rightarrow> nat list list
     \<Rightarrow> (nat list \<times> nat list) option" where
  "first_combination distance ligand ref distTol matches_ref matches_lig =
     find (within_tolerance distance ligand ref distTol) (List.product matches_ref matches_lig)"

definition matches_in_range :: "Mol \<Rightarrow> nat list list \<Rightarrow> bool" where
  "matches_in_range m ms =
     (conformers m \<noteq> [] \<and> list_all (list_all (\<lambda>i. i < length (hd (conformers m)))) ms)"

section \<open>Toolkit defaults\<close>

text \<open>
  The values RDKit documents for the keywords of \<^verbatim>\<open>rdFMCS.FindMCS\<close> that the call
  leaves out. They are not part of the repository.
\<close>

definition rdkit_FindMCS_defaults :: MCSArgs where
  "rdkit_FindMCS_defaults =
     \<lparr>completeRingsOnly = False, matchValences = False, ringMatchesRingOnly = False,
      atomCompare = AtomCompareElements, bondCompare = BondCompareOrder\<rparr>"

section \<open>Double precision arithmetic\<close>

text \<open>
  IEEE 754 binary64 with rounding to nearest, ties to even. \<open>b64_round\<close> takes the exact
  result of an operation to the double that holds it: 53 significant bits, the exponent
  of the last bit not below \<open>-1074\<close> (gradual underflow), and an infinity from
  \<open>2 ^ 1024\<close> on.
\<close>

definition round_half_even :: "real \<Rightarrow> int" where
  "round_half_even q =
     (let f = \<lfloor>q\<rfloor>; r = q - of_int f
      in if r < 1/2 then f else if 1/2 < r then f + 1 else if even f then f else f + 1)"

definition b64_round :: "real \<Rightarrow> double" where
  "b64_round x =
     (if x = 0 then Fin 0
      else
        let e = max \<lfloor>log 2 \<bar>x\<bar>\<rfloor> (-1022);
            u = 2 powr of_int (e - 52);
            y = of_int (round_half_even (x / u)) * u
        in if 2 powr 1024 \<le> \<bar>y\<bar> then (if 0 < x then PInf else NInf) else Fin y)"

fun b64_neg :: "double \<Rightarrow> double" where
  "b64_neg (Fin x) = Fin (- x)"
| "b64_neg PInf = NInf"
| "b64_neg NInf = PInf"
| "b64_neg NaN = NaN"

fun b64_add :: "double \<Rightarrow> double \<Rightarrow> double" where
  "b64_add NaN _ = NaN"
| "b64_add _ NaN = NaN"
| "b64_add (Fin x) (Fin y) = b64_round (x + y)"
| "b64_add PInf NInf = NaN"
| "b64_add NInf PInf = NaN"
| "b64_add PInf _ = PInf"
| "b64_add _ PInf = PInf"
| "b64_add NInf _ = NInf"
| "b64_add _ NInf = NInf"

definition b64_sub :: "double \<Rightarrow> double \<Rightarrow> double" where
  "b64_sub a b = b64_add a (b64_neg b)"

fun b64_mul :: "double \<Rightarrow> double \<Rightarrow> double" where
  "b64_mul NaN _ = NaN"
| "b64_mul _ NaN = NaN"
| "b64_mul (Fin x) (Fin y) = b64_round (x * y)"
| "b64_mul PInf (Fin y) = (if y = 0 then NaN else if 0 < y then PInf else NInf)"
| "b64_mul NInf (Fin y) = (if y = 0 then NaN else if 0 < y then NInf else PInf)"
| "b64_mul (Fin x) PInf = (if x = 0 then NaN else if 0 < x then PInf else NInf)"
| "b64_mul (Fin x) NInf = (if x = 0 then NaN else if 0 < x then NInf else PInf)"
| "b64_mul PInf PInf = PInf"
| "b64_mul PInf NInf = NInf"
| "b64_mul NInf PInf = NInf"
| "b64_mul NInf NInf = PInf"

fun b64_sqrt :: "double \<Rightarrow> double" where
  "b64_sqrt (Fin x) = (if x < 0 then NaN else b64_round (sqrt x))"
| "b64_sqrt PInf = PInf"
| "b64_sqrt NInf = NaN"
| "b64_sqrt NaN = NaN"

text \<open>
  \<^verbatim>\<open>Point3D\<close> in double precision: the difference by components, and the length as
  the square root of \<^verbatim>\<open>x*x + y*y + z*z\<close>, added from the left, every operation rounded.
\<close>

fun b64_PointSub :: "Point3D \<Rightarrow> Point3D \<Rightarrow> Point3D" where
  "b64_PointSub (x1, y1, z1) (x2, y2, z2) = (b64_sub x1 x2, b64_sub y1 y2, b64_sub z1 z2)"

fun b64_PointLength :: "Point3D \<Rightarrow> double" where
  "b64_PointLength (x, y, z) =
     b64_sqrt (b64_add (b64_add (b64_mul x x) (b64_mul y y)) (b64_mul z z))"

section \<open>A small system to run the model on\<close>

text \<open>
  A reference of two carbon atoms and a ligand of three, all on one axis, with the
  two-atom pattern matching a molecule of two atoms in two ways and one of three in four.
  In \<open>lig0\<close> the atoms 1 and 2 sit on the reference atoms; in \<open>lig1\<close> they are one unit
  along the axis from them. The toolkit \<open>tk0\<close> computes in double precision, embeds
  every mapped atom at its mapped position, converges at once, and aligns by leaving the
  probe where it is, raising when the probe has no conformer.
\<close>

definition ref0 :: Mol where
  "ref0 = \<lparr>atoms = [''C'', ''C''], bonds = [(0, 1)],
            conformers = [[(Fin 0, Fin 0, Fin 0), (Fin 3, Fin 0, Fin 0)]]\<rparr>"

definition lig0 :: Mol where
  "lig0 = \<lparr>atoms = [''C'', ''C'', ''C''], bonds = [(0, 1), (1, 2)],
            conformers = [[(Fin 7, Fin 0, Fin 0), (Fin 0, Fin 0, Fin 0), (Fin 3, Fin 0, Fin 0)]]\<rparr>"

definition lig1 :: Mol where
  "lig1 = \<lparr>atoms = [''C'', ''C'', ''C''], bonds = [(0, 1), (1, 2)],
            conformers = [[(Fin 7, Fin 0, Fin 0), (Fin 1, Fin 0, Fin 0), (Fin 4, Fin 0, Fin 0)]]\<rparr>"

definition tk0 :: toolkit where
  "tk0 =
     \<lparr>PointSub = b64_PointSub,
      PointLength = b64_PointLength,
      FindMCS = (\<lambda>args ligand ref. ''[#6]-[#6]''),
      GetSubstructMatches =
        (\<lambda>m pat uniquify.
           if length (atoms m) = 2 then [[0, 1], [1, 0]]
           else [[0, 1], [1, 0], [1, 2], [2, 1]]),
      EmbedMolecule =
        (\<lambda>m coordMap seed.
           (m\<lparr>conformers :=
                 [map (\<lambda>i. case coordMap i of None \<Rightarrow> (Fin 0, Fin 0, Fin 0) | Some p \<Rightarrow> p)
                    [0 ..< length (atoms m)]]\<rparr>, 0)),
      UFFGetMoleculeForceField = (\<lambda>m cid. Some \<lparr>ff_confId = cid, constraints = []\<rparr>),
      Minimize = (\<lambda>ff m maxIts. (m, 0)),
      AlignMol =
        (\<lambda>prb ref atomMap. if conformers prb = [] then Inl ValueError else Inr prb)\<rparr>"

definition h0 :: heap where
  "h0 = \<lparr>objs = (\<lambda>a. if a = 0 then lig0 else ref0), next_addr = 2\<rparr>"

definition h_far :: heap where
  "h_far = \<lparr>objs = (\<lambda>a. if a = 0 then lig1 else ref0), next_addr = 2\<rparr>"

definition kw0 :: kwargs where
  "kw0 = \<lparr>kw_nprocs = None, kw_numconf = None, kw_distTol = None\<rparr>"

definition gen0 :: AbstractConformerGenerator where
  "gen0 =
     \<lparr>query_molecule = 0, reference_substructure = 1, receptor_file = ''receptor.pdb'',
      nprocs = 1, numconf = 1,
      mappingRefToLig = [(0, 1), (1, 2)], mappingLigToRef = [(1, 0), (2, 1)]\<rparr>"

text \<open>
  Variants of \<open>tk0\<close>: a force field that asks for more iterations at every call, and an
  embedding that fails as RDKit's does, with status \<open>-1\<close> and the conformers of the copy
  cleared. \<open>h_noconf\<close> holds a ligand without conformer, \<open>ff_empty\<close> is a force field
  without restraints, and \<open>env0\<close> a file system of two files whose PDB reader yields no
  molecule.
\<close>

definition tk_noconv :: toolkit where
  "tk_noconv = tk0\<lparr>Minimize := (\<lambda>ff m maxIts. (m, 1))\<rparr>"

definition tk_fail_clear :: toolkit where
  "tk_fail_clear =
     tk0\<lparr>EmbedMolecule := (\<lambda>m coordMap seed. (m\<lparr>conformers := []\<rparr>, -1))\<rparr>"

definition h_noconf :: heap where
  "h_noconf = \<lparr>objs = (\<lambda>a. if a = 0 then lig0\<lparr>conformers := []\<rparr> else ref0), next_addr = 2\<rparr>"

definition ff_empty :: ForceField where
  "ff_empty = \<lparr>ff_confId = 0, constraints = []\<rparr>"

definition env0 :: io_env where
  "env0 =
     \<lparr>isfile = (\<lambda>p. p = ''data/lig.PDB'' \<or> p = ''data/lig.xyz''),
      MolFromMolFile = (\<lambda>p. Inr (Some lig0)),
      MolFromMol2File = (\<lambda>p. Inr (Some lig0)),
      MolFromPDBFile = (\<lambda>p. Inr None)\<rparr>"

text \<open>
  Two ligands of two atoms whose second atom sits on the second reference atom. The first
  atom of \<open>lig_round\<close> is at the doubles nearest to 0.28 and 0.96: its distance from the
  origin is below 1, and in double precision the squares add up to 1. The first atom of
  \<open>lig_tiny\<close> is at the double nearest to \<open>1e-200\<close>, whose square underflows to 0;
  \<open>tol_tiny\<close> is the double nearest to \<open>1e-250\<close>.
\<close>

definition c028 :: real where
  "c028 = 1261007895663739 / 2 ^ 52"

definition c096 :: real where
  "c096 = 1080863910568919 / 2 ^ 50"

definition c1e200 :: real where
  "c1e200 = 1723641332219371 / 2 ^ 715"

definition tol_tiny :: real where
  "tol_tiny = 1612226962694291 / 2 ^ 881"

definition lig_round :: Mol where
  "lig_round = \<lparr>atoms = [''C'', ''C''], bonds = [(0, 1)],
                 conformers = [[(Fin c028, Fin c096, Fin 0), (Fin 3, Fin 0, Fin 0)]]\<rparr>"

definition lig_tiny :: Mol where
  "lig_tiny = \<lparr>atoms = [''C'', ''C''], bonds = [(0, 1)],
                conformers = [[(Fin c1e200, Fin 0, Fin 0), (Fin 3, Fin 0, Fin 0)]]\<rparr>"

section \<open>Lemmas on the correspondence loops\<close>

lemma float_lt_le_trans:
  assumes "float_lt d T1" and "float_le T1 T2"
  shows "float_lt d T2"
  using assms by (cases d; cases T1; cases T2) simp_all

lemma pair_dist_in_range:
  assumes "conformers ref \<noteq> []" "conformers ligand \<noteq> []"
    and "i0 < length (hd (conformers ref))" "ii < length (hd (conformers ligand))"
  shows "pair_dist tk ref ligand (i0, ii) = Inr (toolkit_distance tk (atom_pos ref i0) (atom_pos ligand ii))"
  using assms
  by (cases "conformers ref"; cases "conformers ligand")
     (simp_all add: GetConformer_def GetAtomPosition_def atom_pos_def toolkit_distance_def)

lemma dist_list_in_range:
  assumes "conformers ref \<noteq> []" "conformers ligand \<noteq> []"
    and "list_all (\<lambda>i. i < length (hd (conformers ref))) mr"
    and "list_all (\<lambda>i. i < length (hd (conformers ligand))) ml"
  shows "dist_list tk ref ligand (zip mr ml) =
           Inr (map (\<lambda>(i0, ii). toolkit_distance tk (atom_pos ref i0) (atom_pos ligand ii)) (zip mr ml))"
  using assms(3,4)
proof (induction mr arbitrary: ml)
  case Nil
  then show ?case by simp
next
  case (Cons i0 mr)
  show ?case
  proof (cases ml)
    case Nil
    then show ?thesis by simp
  next
    case (Cons ii ml')
    with Cons.prems Cons.IH[of ml'] assms(1,2) show ?thesis
      by (simp add: pair_dist_in_range del: pair_dist.simps)
  qed
qed

lemma lig_loop_find:
  assumes "conformers ref \<noteq> []" "conformers ligand \<noteq> []"
    and "list_all (\<lambda>i. i < length (hd (conformers ref))) mr"
    and "list_all (list_all (\<lambda>i. i < length (hd (conformers ligand)))) mls"
  shows "lig_loop tk ligand ref distTol mr mls =
           Inr (map_option (\<lambda>ml. zip mr ml)
                  (find (\<lambda>ml. within_tolerance (toolkit_distance tk) ligand ref distTol (mr, ml)) mls))"
  using assms(4)
proof (induction mls)
  case Nil
  then show ?case by simp
next
  case (Cons ml mls)
  then show ?case
    using dist_list_in_range[OF assms(1,2,3), of ml]
    by (simp add: within_tolerance_def list_all_iff split_def)
qed


lemma find_append_cases:
  "find P (xs @ ys) = (case find P xs of None \<Rightarrow> find P ys | Some x \<Rightarrow> Some x)"
  by (induction xs) simp_all

lemma find_map_Pair:
  "find P (map (Pair x) ys) = map_option (Pair x) (find (\<lambda>y. P (x, y)) ys)"
  by (induction ys) simp_all

lemma ref_loop_find:
  assumes "conformers ref \<noteq> []" "conformers ligand \<noteq> []"
    and "list_all (list_all (\<lambda>i. i < length (hd (conformers ref)))) mrs"
    and "list_all (list_all (\<lambda>i. i < length (hd (conformers ligand)))) mls"
  shows "ref_loop tk ligand ref distTol mrs mls =
           (case first_combination (toolkit_distance tk) ligand ref distTol mrs mls of
              None \<Rightarrow> Inl (Exception ''ERROR: No MCS found!'')
            | Some (mr, ml) \<Rightarrow> Inr (zip mr ml))"
  using assms(3)
proof (induction mrs)
  case Nil
  then show ?case by (simp add: first_combination_def)
next
  case (Cons mr mrs)
  from Cons.prems have mr: "list_all (\<lambda>i. i < length (hd (conformers ref))) mr"
    and rest: "list_all (list_all (\<lambda>i. i < length (hd (conformers ref)))) mrs"
    by simp_all
  have inner: "lig_loop tk ligand ref distTol mr mls =
      Inr (map_option (\<lambda>ml. zip mr ml)
             (find (\<lambda>ml. within_tolerance (toolkit_distance tk) ligand ref distTol (mr, ml)) mls))"
    by (rule lig_loop_find[OF assms(1,2) mr assms(4)])
  show ?case
  proof (cases "find (\<lambda>ml. within_tolerance (toolkit_distance tk) ligand ref distTol (mr, ml)) mls")
    case None
    with inner Cons.IH[OF rest] show ?thesis
      by (simp add: first_combination_def find_append_cases find_map_Pair)
  next
    case (Some ml)
    with inner show ?thesis
      by (simp add: first_combination_def find_append_cases find_map_Pair)
  qed
qed

lemma MCS_AtomMap_find:
  assumes "matches_in_range ref
             (GetSubstructMatches tk ref (FindMCS tk (mcs_call_args defaults) ligand ref) False)"
    and "matches_in_range ligand
           (GetSubstructMatches tk ligand (FindMCS tk (mcs_call_args defaults) ligand ref) False)"
  shows "MCS_AtomMap tk defaults ligand ref distTol =
           (case first_combination (toolkit_distance tk) ligand ref distTol
                   (GetSubstructMatches tk ref (FindMCS tk (mcs_call_args defaults) ligand ref) False)
                   (GetSubstructMatches tk ligand (FindMCS tk (mcs_call_args defaults) ligand ref) False) of
              None \<Rightarrow> Inl (Exception ''ERROR: No MCS found!'')
            | Some (mr, ml) \<Rightarrow> Inr (zip mr ml))"
  using assms unfolding MCS_AtomMap_def matches_in_range_def Let_def
  by (intro ref_loop_find) simp_all

lemma lig_loop_mono:
  assumes "float_le T1 T2"
  shows "(lig_loop tk ligand ref T2 mr mls = Inr None \<longrightarrow> lig_loop tk ligand ref T1 mr mls = Inr None)
       \<and> (lig_loop tk ligand ref T2 mr mls = Inl e \<longrightarrow> lig_loop tk ligand ref T1 mr mls = Inl e)"
proof (induction mls)
  case Nil
  show ?case by simp
next
  case (Cons ml mls)
  show ?case
  proof (cases "dist_list tk ref ligand (zip mr ml)")
    case (Inl e')
    then show ?thesis by simp
  next
    case (Inr ds)
    have "list_all (\<lambda>d. float_lt d T1) ds \<Longrightarrow> list_all (\<lambda>d. float_lt d T2) ds"
      using float_lt_le_trans[OF _ assms] by (induction ds) auto
    with Inr Cons.IH show ?thesis by auto
  qed
qed

lemma ref_loop_mono:
  assumes "float_le T1 T2" and "ref_loop tk ligand ref T2 mrs mls = Inl e"
  shows "ref_loop tk ligand ref T1 mrs mls = Inl e"
  using assms(2)
proof (induction mrs)
  case Nil
  then show ?case by simp
next
  case (Cons mr mrs)
  show ?case
  proof (cases "lig_loop tk ligand ref T2 mr mls")
    case (Inl e')
    with Cons.prems have "e' = e" by simp
    with Inl lig_loop_mono[OF assms(1), of tk ligand ref mr mls e] show ?thesis by simp
  next
    case (Inr r)
    show ?thesis
    proof (cases r)
      case None
      with Inr lig_loop_mono[OF assms(1), of tk ligand ref mr mls e] Cons show ?thesis by simp
    next
      case (Some m)
      with Inr Cons.prems show ?thesis by simp
    qed
  qed
qed

section \<open>Lemmas on rounding to a double\<close>

lemma round_half_even_near:
  assumes "\<bar>q - of_int n\<bar> < 1/2"
  shows "round_half_even q = n"
proof -
  have "\<lfloor>q\<rfloor> = n \<or> \<lfloor>q\<rfloor> = n - 1"
    using assms by linarith
  then show ?thesis
  proof
    assume f: "\<lfloor>q\<rfloor> = n"
    then have "q - of_int n < 1/2" using assms by linarith
    with f show ?thesis by (simp add: round_half_even_def)
  next
    assume f: "\<lfloor>q\<rfloor> = n - 1"
    then have "q < of_int n" by linarith
    with assms have "1/2 < q - of_int (n - 1)" by simp
    with f show ?thesis by (simp add: round_half_even_def Let_def)
  qed
qed

lemma round_half_even_of_int: "round_half_even (of_int n) = n"
  by (rule round_half_even_near) simp


lemma b64_round_near:
  assumes lo: "2 powr of_int e \<le> \<bar>x\<bar>" and hi: "\<bar>x\<bar> < 2 powr of_int (e + 1)"
    and e: "-1022 \<le> e" "e \<le> 1022"
    and n: "\<bar>x / 2 powr of_int (e - 52) - of_int n\<bar> < 1/2"
  shows "b64_round x = Fin (of_int n * 2 powr of_int (e - 52))"
proof -
  have pos: "0 < \<bar>x\<bar>" using lo by (smt (verit) powr_gt_zero)
  then have x0: "x \<noteq> 0" by simp
  have fl: "\<lfloor>log 2 \<bar>x\<bar>\<rfloor> = e"
    using lo hi pos by (simp add: floor_log_eq_powr_iff)
  define u :: real where "u = 2 powr of_int (e - 52)"
  have u0: "0 < u" by (simp add: u_def)
  have r: "round_half_even (x / u) = n"
    using n unfolding u_def by (rule round_half_even_near)
  have "\<bar>x / u\<bar> < 2 powr 53"
  proof -
    have "\<bar>x / u\<bar> = \<bar>x\<bar> / u" using u0 by simp
    also have "\<dots> < 2 powr of_int (e + 1) / u" using hi u0 by (simp add: divide_strict_right_mono)
    also have "\<dots> = 2 powr 53" unfolding u_def by (simp flip: powr_diff)
    finally show ?thesis .
  qed
  then have "\<bar>of_int n :: real\<bar> < 2 powr 53 + 1/2"
    using n unfolding u_def[symmetric] by linarith
  then have "\<bar>of_int n :: real\<bar> < 2 ^ 53 + 1/2" by simp
  then have "(of_int \<bar>n\<bar> :: real) < of_int (2 ^ 53 + 1)" by simp
  then have "\<bar>n\<bar> < 2 ^ 53 + 1" by (simp only: of_int_less_iff)
  then have "\<bar>n\<bar> \<le> 2 ^ 53" by simp
  then have "(of_int \<bar>n\<bar> :: real) \<le> of_int (2 ^ 53)" by (simp only: of_int_le_iff)
  then have nb: "\<bar>of_int n :: real\<bar> \<le> 2 powr 53" by simp
  have "\<bar>of_int n * u\<bar> = \<bar>of_int n\<bar> * u" using u0 by (simp add: abs_mult)
  also have "\<dots> \<le> 2 powr 53 * u" using nb u0 by (simp add: mult_right_mono)
  also have "\<dots> = 2 powr of_int (e + 1)"
  proof -
    have "(2::real) powr 53 * 2 powr of_int (e - 52) = 2 powr (53 + of_int (e - 52))"
      by (rule powr_add [symmetric])
    also have "53 + real_of_int (e - 52) = of_int (e + 1)" by simp
    finally show ?thesis unfolding u_def .
  qed
  also have "\<dots> \<le> 2 powr 1023" by (rule powr_mono) (use e in simp_all)
  also have "\<dots> < 2 powr 1024" by (rule powr_less_mono) simp_all
  finally have y: "\<not> 2 powr 1024 \<le> \<bar>of_int n * u\<bar>" by simp
  show ?thesis
    using x0 fl e r y unfolding b64_round_def Let_def u_def[symmetric]
    by (simp add: u_def)
qed


lemma b64_round_tiny:
  assumes "x \<noteq> 0" and "\<bar>x\<bar> < 2 powr (-1075)"
  shows "b64_round x = Fin 0"
proof -
  have pos: "0 < \<bar>x\<bar>" using assms(1) by simp
  have "log 2 \<bar>x\<bar> < -1075"
    using assms(2) pos by (simp only: log_less_iff[of 2 "\<bar>x\<bar>" "-1075"]) 
  then have "\<lfloor>log 2 \<bar>x\<bar>\<rfloor> < -1075" by linarith
  then have m: "max \<lfloor>log 2 \<bar>x\<bar>\<rfloor> (-1022) = -1022" by simp
  have "\<bar>x / 2 powr (-1074)\<bar> = \<bar>x\<bar> / 2 powr (-1074)" by simp
  also have "\<dots> < 2 powr (-1075) / 2 powr (-1074)"
    using assms(2) by (rule divide_strict_right_mono) simp
  also have "\<dots> = 2 powr (-1075 - (-1074))" by (rule powr_diff [symmetric])
  also have "\<dots> = 1/2" by simp
  finally have "\<bar>x / 2 powr (-1074) - of_int 0\<bar> < 1/2" by simp
  then have r: "round_half_even (x / 2 powr (-1074)) = 0" by (rule round_half_even_near)
  show ?thesis
    using assms(1) m r unfolding b64_round_def Let_def by simp
qed

lemma b64_round_representable:
  assumes x: "x = of_int n * 2 powr of_int k"
    and n: "n \<noteq> 0" "\<bar>n\<bar> < 2 ^ 53"
    and k: "-1022 \<le> k" "k \<le> 970"
  shows "b64_round x = Fin x"
proof -
  have ax: "\<bar>x\<bar> = of_int \<bar>n\<bar> * 2 powr of_int k"
    unfolding x by (simp add: abs_mult)
  have n1: "(1::real) \<le> of_int \<bar>n\<bar>" using n(1) by (simp flip: of_int_abs add: Ints_nonzero_abs_ge1)
  have n2: "(of_int \<bar>n\<bar> :: real) < 2 powr 53"
  proof -
    have "(of_int \<bar>n\<bar> :: real) < of_int (2 ^ 53)" using n(2) by (simp only: of_int_less_iff)
    then show ?thesis by simp
  qed
  have pos: "0 < \<bar>x\<bar>" unfolding ax using n1 by (simp add: mult_pos_pos)
  define L where "L = \<lfloor>log 2 \<bar>x\<bar>\<rfloor>"
  have bounds: "2 powr of_int L \<le> \<bar>x\<bar>" "\<bar>x\<bar> < 2 powr of_int (L + 1)"
    using floor_log_eq_powr_iff[of "\<bar>x\<bar>" 2 L] pos unfolding L_def by simp_all
  have "2 powr of_int k \<le> \<bar>x\<bar>"
    unfolding ax using n1 by (simp add: mult_le_cancel_right1)
  then have "of_int k \<le> log 2 \<bar>x\<bar>" using pos by (simp add: le_log_iff)
  then have kL: "k \<le> L" unfolding L_def by (simp add: le_floor_iff)
  have "\<bar>x\<bar> < 2 powr 53 * 2 powr of_int k"
    unfolding ax using n2 by (simp del: powr_numeral add: mult_strict_right_mono)
  also have "\<dots> = 2 powr (53 + of_int k)" by (rule powr_add [symmetric])
  finally have "log 2 \<bar>x\<bar> < 53 + of_int k" using pos by (simp only: log_less_iff[of 2 "\<bar>x\<bar>"]) 
  then have Lk: "L \<le> k + 52" unfolding L_def by linarith
  define d where "d = nat (k + 52 - L)"
  define m where "m = n * 2 ^ d"
  have dk: "int d = k + 52 - L" unfolding d_def using Lk by simp
  have q: "x / 2 powr of_int (L - 52) = of_int m"
  proof -
    have "x / 2 powr of_int (L - 52) = of_int n * (2 powr of_int k / 2 powr of_int (L - 52))"
      unfolding x by simp
    also have "2 powr of_int k / 2 powr of_int (L - 52) = (2::real) powr (of_int k - of_int (L - 52))"
      by (rule powr_diff [symmetric])
    also have "of_int k - real_of_int (L - 52) = real d"
      using dk by simp
    also have "(2::real) powr real d = 2 ^ d" by (simp add: powr_realpow)
    finally show ?thesis by (simp add: m_def)
  qed
  have "b64_round x = Fin (of_int m * 2 powr of_int (L - 52))"
  proof (rule b64_round_near[OF bounds])
    show "-1022 \<le> L" using k(1) kL by simp
    show "L \<le> 1022" using k(2) Lk by simp
    show "\<bar>x / 2 powr of_int (L - 52) - of_int m\<bar> < 1/2" unfolding q by simp
  qed
  also have "of_int m * 2 powr of_int (L - 52) = x"
    using q by (simp add: field_simps)
  finally show ?thesis .
qed

lemma b64_round_zero: "b64_round 0 = Fin 0"
  by (simp add: b64_round_def)

lemma b64_round_int:
  assumes "x \<in> \<int>" and "\<bar>x\<bar> < 2 ^ 53"
  shows "b64_round x = Fin x"
proof (cases "x = 0")
  case True
  then show ?thesis by (simp add: b64_round_zero)
next
  case False
  from assms(1) obtain n where n: "x = of_int n" by (auto elim: Ints_cases)
  with assms(2) have "(of_int \<bar>n\<bar> :: real) < of_int (2 ^ 53)" by simp
  then have "\<bar>n\<bar> < 2 ^ 53" by (simp only: of_int_less_iff)
  moreover from False n have "n \<noteq> 0" by simp
  ultimately show ?thesis
    using b64_round_representable[of x n 0] n by simp
qed

lemma b64_sub_int:
  assumes "x \<in> \<int>" "y \<in> \<int>" "\<bar>x - y\<bar> < 2 ^ 53"
  shows "b64_sub (Fin x) (Fin y) = Fin (x - y)"
  using b64_round_int[of "x - y"] assms by (simp add: b64_sub_def)

lemma b64_axis_distance:
  assumes "x \<in> \<int>" "y \<in> \<int>" "\<bar>x - y\<bar> < 2 ^ 26"
  shows "b64_PointLength (b64_PointSub (Fin x, Fin 0, Fin 0) (Fin y, Fin 0, Fin 0)) = Fin \<bar>x - y\<bar>"
proof -
  define d where "d = x - y"
  have dI: "d \<in> \<int>" unfolding d_def using assms by simp
  have dB: "\<bar>d\<bar> < 2 ^ 26" unfolding d_def using assms by simp
  have sub: "b64_PointSub (Fin x, Fin 0, Fin 0) (Fin y, Fin 0, Fin 0) = (Fin d, Fin 0, Fin 0)"
    using b64_sub_int[of x y] b64_sub_int[of 0 0] assms unfolding d_def by simp
  have "\<bar>d * d\<bar> = \<bar>d\<bar> * \<bar>d\<bar>" by (simp add: abs_mult)
  also have "\<dots> < 2 ^ 26 * 2 ^ 26"
    using dB by (intro mult_strict_mono) simp_all
  finally have sqB: "\<bar>d * d\<bar> < 2 ^ 53" by simp
  have sq: "b64_round (d * d) = Fin (d * d)"
    using dI sqB by (intro b64_round_int) simp_all
  have rt: "b64_round \<bar>d\<bar> = Fin \<bar>d\<bar>"
    using dI dB by (intro b64_round_int) simp_all
  have "b64_PointLength (Fin d, Fin 0, Fin 0) = Fin \<bar>d\<bar>"
    using sq rt by (simp add: b64_round_zero)
  with sub show ?thesis by (simp add: d_def)
qed

lemma b64_round_neg_c028: "b64_round (- c028) = Fin (- c028)"
  by (rule b64_round_representable[of _ "-1261007895663739" "-52"])
     (simp_all add: c028_def powr_minus)

lemma b64_round_neg_c096: "b64_round (- c096) = Fin (- c096)"
  by (rule b64_round_representable[of _ "-1080863910568919" "-50"])
     (simp_all add: c096_def powr_minus)

lemma b64_round_sq_c028: "b64_round (c028 * c028) = Fin (5649315372573551 / 2 ^ 56)"
  using b64_round_near[of "-4" "c028 * c028" 5649315372573551]
  by (simp add: c028_def powr_minus)

lemma b64_round_sq_c096: "b64_round (c096 * c096) = Fin (8301034833169298 / 2 ^ 53)"
  using b64_round_near[of "-1" "c096 * c096" 8301034833169298]
  by (simp add: c096_def powr_minus)

lemma b64_round_sum_squares:
  "b64_round (5649315372573551 / 2 ^ 56 + 8301034833169298 / 2 ^ 53) = Fin 1"
  using b64_round_near[of "-1" "5649315372573551 / 2 ^ 56 + 8301034833169298 / 2 ^ 53" "2 ^ 53"]
  by (simp add: powr_minus)

lemma b64_length_round:
  "b64_PointLength (b64_PointSub (Fin 0, Fin 0, Fin 0) (Fin c028, Fin c096, Fin 0)) = Fin 1"
proof -
  have one: "b64_round 1 = Fin 1" by (rule b64_round_int) simp_all
  have sub: "b64_PointSub (Fin 0, Fin 0, Fin 0) (Fin c028, Fin c096, Fin 0)
               = (Fin (- c028), Fin (- c096), Fin 0)"
    by (simp add: b64_sub_def b64_round_neg_c028 b64_round_neg_c096 b64_round_zero)
  have "b64_PointLength (Fin (- c028), Fin (- c096), Fin 0)
          = b64_sqrt (b64_add (b64_add (b64_round (c028 * c028)) (b64_round (c096 * c096)))
                        (b64_round 0))"
    by simp
  also have "\<dots> = b64_sqrt (b64_add (b64_add (Fin (5649315372573551 / 2 ^ 56))
                                    (Fin (8301034833169298 / 2 ^ 53))) (Fin 0))"
    by (simp only: b64_round_sq_c028 b64_round_sq_c096 b64_round_zero)
  also have "\<dots> = b64_sqrt (b64_add
                        (b64_round (5649315372573551 / 2 ^ 56 + 8301034833169298 / 2 ^ 53))
                        (Fin 0))"
    by (simp only: b64_add.simps)
  also have "\<dots> = b64_sqrt (b64_add (Fin 1) (Fin 0))"
    by (simp only: b64_round_sum_squares)
  also have "\<dots> = Fin 1"
    by (simp add: one)
  finally show ?thesis unfolding sub .
qed

lemma b64_round_neg_c1e200: "b64_round (- c1e200) = Fin (- c1e200)"
  by (rule b64_round_representable[of _ "-1723641332219371" "-715"])
     (simp_all add: c1e200_def powr_minus)

lemma b64_round_sq_c1e200: "b64_round (c1e200 * c1e200) = Fin 0"
  by (rule b64_round_tiny) (simp_all add: c1e200_def powr_minus)

lemma b64_length_tiny:
  "b64_PointLength (b64_PointSub (Fin 0, Fin 0, Fin 0) (Fin c1e200, Fin 0, Fin 0)) = Fin 0"
proof -
  have sub: "b64_PointSub (Fin 0, Fin 0, Fin 0) (Fin c1e200, Fin 0, Fin 0)
               = (Fin (- c1e200), Fin 0, Fin 0)"
    by (simp add: b64_sub_def b64_round_neg_c1e200 b64_round_zero)
  show ?thesis
    unfolding sub by (simp add: b64_round_sq_c1e200 b64_round_zero)
qed

declare b64_PointSub.simps [simp del] b64_PointLength.simps [simp del]

lemma euclidean_axis:
  "euclidean_distance (Fin x, Fin 0, Fin 0) (Fin y, Fin 0, Fin 0) = Fin \<bar>x - y\<bar>"
  by simp

lemma euclidean_round_lt:
  "float_lt (euclidean_distance (Fin 0, Fin 0, Fin 0) (Fin c028, Fin c096, Fin 0)) (Fin 1)"
  by (simp add: c028_def c096_def power2_eq_square)

section \<open>Lemmas on restraints, the minimisation loop and the store\<close>

declare minimize_loop.simps [simp del]

lemma add_constraints_constraints:
  "constraints (add_constraints ff idxs) = constraints ff @ map (\<lambda>i. (i, 0, 200)) idxs"
  by (induction idxs arbitrary: ff) (simp_all add: UFFAddPositionConstraint_def)

lemma minimize_constraints_eq:
  "constraints (minimize_constraints self ff) =
     constraints ff @ map (\<lambda>(i, j). (i, 0, 200)) (mappingRefToLig self)"
  by (simp add: minimize_constraints_def add_constraints_constraints split_def comp_def)

lemma minimize_loop_unfold:
  "minimize_loop tk ff m maxIters calls =
     (if snd (Minimize tk ff m 4) \<noteq> 0 \<and> maxIters > 0
      then minimize_loop tk ff (fst (Minimize tk ff m 4)) (maxIters - 1) (Suc calls)
      else (fst (Minimize tk ff m 4), Suc calls))"
  by (subst minimize_loop.simps) (simp add: Let_def)

lemma minimize_loop_calls_le:
  "snd (minimize_loop tk ff m maxIters calls) \<le> calls + nat maxIters + 1"
proof (induction tk ff m maxIters calls rule: minimize_loop.induct)
  case (1 tk ff m maxIters calls)
  show ?case
  proof (cases "snd (Minimize tk ff m 4) \<noteq> 0 \<and> maxIters > 0")
    case True
    then have pos: "nat (maxIters - 1) + 1 = nat maxIters" by arith
    from True "1.IH"[OF refl] have
      "snd (minimize_loop tk ff (fst (Minimize tk ff m 4)) (maxIters - 1) (Suc calls))
         \<le> Suc calls + nat (maxIters - 1) + 1"
      by simp
    with pos have
      "snd (minimize_loop tk ff (fst (Minimize tk ff m 4)) (maxIters - 1) (Suc calls))
         \<le> calls + nat maxIters + 1"
      by linarith
    with True show ?thesis
      by (subst minimize_loop_unfold) simp
  next
    case False
    then show ?thesis
      by (subst minimize_loop_unfold) auto
  qed
qed

lemma minimize_loop_converged:
  "snd (Minimize tk ff m 4) = 0 \<Longrightarrow> minimize_loop tk ff m maxIters calls = (fst (Minimize tk ff m 4), Suc calls)"
  by (subst minimize_loop.simps) (simp add: Let_def)

lemma Minimize_tk_noconv: "Minimize tk_noconv ff m its = (m, 1)"
  by (simp add: tk_noconv_def)

lemma alignToRef_frame:
  "a \<noteq> ligand \<Longrightarrow> objs (fst (alignToRef tk self h ligand)) a = objs h a"
  by (simp add: alignToRef_def split: sum.split)

lemma alignToRef_next_addr:
  "next_addr (fst (alignToRef tk self h ligand)) = next_addr h"
  by (simp add: alignToRef_def split: sum.split)

lemma deepcopy_snd: "snd (deepcopy h a) = next_addr h"
  by (simp add: deepcopy_def)

lemma deepcopy_objs: "objs (fst (deepcopy h a)) = (objs h)(next_addr h := objs h a)"
  by (simp add: deepcopy_def)

lemma embed_success_path:
  assumes "GetConformerId (objs h ligand) 0 = Inr ligConf"
    and "coordMap_loop ligConf (mappingRefToLig self) Map.empty = Inr coordMap"
  shows "embed tk self h ligand seed =
           (let h1 = fst (deepcopy h ligand);
                l_embed = snd (deepcopy h ligand);
                m = fst (EmbedMolecule tk (objs h1 l_embed) coordMap seed);
                h2 = h1\<lparr>objs := (objs h1)(l_embed := m)\<rparr>;
                r = alignToRef tk self h2 l_embed
            in (fst r, case snd r of Inl e \<Rightarrow> Inl e | Inr u \<Rightarrow> Inr l_embed))"
  using assms
  by (simp add: embed_def split_def Let_def split: sum.split)

section \<open>The claims on the Atom Correspondence Builder\<close>

text \<open>
  C1. With a conformer on both molecules and the matches inside them, \<open>_MCS_AtomMap\<close>
  returns the pairing of the first combination, reference matches outermost, whose paired
  distances, as the toolkit computes them in double precision, are all strictly below
  \<open>distTol\<close>, and raises when there is none; the constructor stores that pairing and its
  elementwise swap.
\<close>

theorem MCS_AtomMap_first_combination:
  assumes "ligand = objs h query_mol" and "ref = objs h reference_sub"
    and "distTol = (case kw_distTol kw of None \<Rightarrow> Fin 1 | Some t \<Rightarrow> t)"
    and "matches_ref =
           GetSubstructMatches tk ref (FindMCS tk (mcs_call_args defaults) ligand ref) False"
    and "matches_lig =
           GetSubstructMatches tk ligand (FindMCS tk (mcs_call_args defaults) ligand ref) False"
    and "matches_in_range ref matches_ref" and "matches_in_range ligand matches_lig"
  shows "MCS_AtomMap tk defaults ligand ref distTol =
           (case first_combination (toolkit_distance tk) ligand ref distTol
                   matches_ref matches_lig of
              None \<Rightarrow> Inl (Exception ''ERROR: No MCS found!'')
            | Some (match_ref, match_lig) \<Rightarrow> Inr (zip match_ref match_lig))
       \<and> init tk defaults h query_mol reference_sub receptor kw =
           (case first_combination (toolkit_distance tk) ligand ref distTol
                   matches_ref matches_lig of
              None \<Rightarrow> Inl (Exception ''ERROR: No MCS found!'')
            | Some (match_ref, match_lig) \<Rightarrow>
                Inr \<lparr>query_molecule = query_mol,
                     reference_substructure = reference_sub,
                     receptor_file = receptor,
                     nprocs = (case kw_nprocs kw of None \<Rightarrow> 1 | Some n \<Rightarrow> n),
                     numconf = (case kw_numconf kw of None \<Rightarrow> 1 | Some n \<Rightarrow> n),
                     mappingRefToLig = zip match_ref match_lig,
                     mappingLigToRef = map (\<lambda>(i, j). (j, i)) (zip match_ref match_lig)\<rparr>)"
proof -
  have m: "MCS_AtomMap tk defaults ligand ref distTol =
           (case first_combination (toolkit_distance tk) ligand ref distTol
                   matches_ref matches_lig of
              None \<Rightarrow> Inl (Exception ''ERROR: No MCS found!'')
            | Some (match_ref, match_lig) \<Rightarrow> Inr (zip match_ref match_lig))"
    using assms(4-7) MCS_AtomMap_find[of ref tk defaults ligand distTol] by simp
  have "init tk defaults h query_mol reference_sub receptor kw =
          (case MCS_AtomMap tk defaults ligand ref distTol of
             Inl e \<Rightarrow> Inl e
           | Inr m \<Rightarrow>
               Inr \<lparr>query_molecule = query_mol,
                    reference_substructure = reference_sub,
                    receptor_file = receptor,
                    nprocs = (case kw_nprocs kw of None \<Rightarrow> 1 | Some n \<Rightarrow> n),
                    numconf = (case kw_numconf kw of None \<Rightarrow> 1 | Some n \<Rightarrow> n),
                    mappingRefToLig = m,
                    mappingLigToRef = map (\<lambda>(i, j). (j, i)) m\<rparr>)"
    using assms(1-3) by (simp add: init_def)
  with m show ?thesis
    by (simp split: option.split prod.split)
qed

theorem MCS_AtomMap_first_combination_witness:
  "matches_in_range ref0 [[0, 1], [1, 0]]
   \<and> matches_in_range lig0 [[0, 1], [1, 0], [1, 2], [2, 1]]
   \<and> first_combination (toolkit_distance tk0) lig0 ref0 (Fin 1)
         [[0, 1], [1, 0]] [[0, 1], [1, 0], [1, 2], [2, 1]]
       = Some ([0, 1], [1, 2])
   \<and> MCS_AtomMap tk0 rdkit_FindMCS_defaults lig0 ref0 (Fin 1) = Inr [(0, 1), (1, 2)]
   \<and> init tk0 rdkit_FindMCS_defaults h0 0 1 ''receptor.pdb'' kw0 = Inr gen0"
proof -
  have r: "matches_in_range ref0 [[0, 1], [1, 0]]"
    by (simp add: matches_in_range_def ref0_def)
  have l: "matches_in_range lig0 [[0, 1], [1, 0], [1, 2], [2, 1]]"
    by (simp add: matches_in_range_def lig0_def)
  have f: "first_combination (toolkit_distance tk0) lig0 ref0 (Fin 1)
             [[0, 1], [1, 0]] [[0, 1], [1, 0], [1, 2], [2, 1]]
             = Some ([0, 1], [1, 2])"
    by (simp add: first_combination_def within_tolerance_def toolkit_distance_def atom_pos_def
          tk0_def lig0_def ref0_def b64_axis_distance)
  have gr: "GetSubstructMatches tk0 ref0
              (FindMCS tk0 (mcs_call_args rdkit_FindMCS_defaults) lig0 ref0) False
            = [[0, 1], [1, 0]]"
    by (simp add: tk0_def ref0_def)
  have gl: "GetSubstructMatches tk0 lig0
              (FindMCS tk0 (mcs_call_args rdkit_FindMCS_defaults) lig0 ref0) False
            = [[0, 1], [1, 0], [1, 2], [2, 1]]"
    by (simp add: tk0_def lig0_def)
  have o: "lig0 = objs h0 0" "ref0 = objs h0 1"
    by (simp_all add: h0_def)
  have t: "Fin 1 = (case kw_distTol kw0 of None \<Rightarrow> Fin 1 | Some t \<Rightarrow> t)"
    by (simp add: kw0_def)
  from MCS_AtomMap_first_combination[OF o t gr[symmetric] gl[symmetric] r l,
         of "''receptor.pdb''"] r l f
  show ?thesis by (simp add: gen0_def kw0_def)
qed

text \<open>
  With the Euclidean distance of the stored positions in place of the computed one the
  statement fails. The first atom of \<open>lig_round\<close> is less than 1 from the first reference
  atom and the second atoms coincide, so the first combination has every Euclidean distance
  below the tolerance 1; the distance computed in double precision is 1, and
  \<open>_MCS_AtomMap\<close> raises.
\<close>

theorem MCS_AtomMap_rejects_euclidean_match:
  "first_combination euclidean_distance lig_round ref0 (Fin 1)
       [[0, 1], [1, 0]] [[0, 1], [1, 0]]
     = Some ([0, 1], [0, 1])
   \<and> MCS_AtomMap tk0 rdkit_FindMCS_defaults lig_round ref0 (Fin 1)
       = Inl (Exception ''ERROR: No MCS found!'')"
proof -
  have e: "first_combination euclidean_distance lig_round ref0 (Fin 1)
             [[0, 1], [1, 0]] [[0, 1], [1, 0]] = Some ([0, 1], [0, 1])"
    by (simp add: first_combination_def within_tolerance_def atom_pos_def
          lig_round_def ref0_def euclidean_round_lt euclidean_axis
          del: euclidean_distance.simps)
  have c: "MCS_AtomMap tk0 rdkit_FindMCS_defaults lig_round ref0 (Fin 1)
             = Inl (Exception ''ERROR: No MCS found!'')"
    by (simp add: MCS_AtomMap_def tk0_def lig_round_def ref0_def GetConformer_def
          GetAtomPosition_def b64_axis_distance b64_length_round)
  from e c show ?thesis by simp
qed

text \<open>
  C2. When no combination of a reference match and a ligand match has all its paired
  distances, as the toolkit computes them, strictly below the tolerance, \<open>_MCS_AtomMap\<close>
  raises its exception and the constructor ends with the same exception: the builder is
  called once.
\<close>

theorem MCS_AtomMap_no_match_raises:
  assumes "ligand = objs h query_mol" and "ref = objs h reference_sub"
    and "distTol = (case kw_distTol kw of None \<Rightarrow> Fin 1 | Some t \<Rightarrow> t)"
    and "matches_ref =
           GetSubstructMatches tk ref (FindMCS tk (mcs_call_args defaults) ligand ref) False"
    and "matches_lig =
           GetSubstructMatches tk ligand (FindMCS tk (mcs_call_args defaults) ligand ref) False"
    and "matches_in_range ref matches_ref" and "matches_in_range ligand matches_lig"
    and "\<forall>c \<in> set (List.product matches_ref matches_lig).
           \<not> within_tolerance (toolkit_distance tk) ligand ref distTol c"
  shows "MCS_AtomMap tk defaults ligand ref distTol = Inl (Exception ''ERROR: No MCS found!'')
       \<and> init tk defaults h query_mol reference_sub receptor kw
           = Inl (Exception ''ERROR: No MCS found!'')"
proof -
  have "first_combination (toolkit_distance tk) ligand ref distTol matches_ref matches_lig = None"
    using assms(8) by (simp add: first_combination_def find_None_iff)
  then have m: "MCS_AtomMap tk defaults ligand ref distTol
                  = Inl (Exception ''ERROR: No MCS found!'')"
    using assms(4-7) MCS_AtomMap_find[of ref tk defaults ligand distTol] by simp
  then show ?thesis
    using assms(1-3) by (simp add: init_def)
qed

theorem MCS_AtomMap_no_match_raises_witness:
  "matches_in_range ref0 [[0, 1], [1, 0]]
   \<and> matches_in_range lig1 [[0, 1], [1, 0], [1, 2], [2, 1]]
   \<and> list_all (\<lambda>c. \<not> within_tolerance (toolkit_distance tk0) lig1 ref0 (Fin 1) c)
       (List.product [[0, 1], [1, 0]] [[0, 1], [1, 0], [1, 2], [2, 1]])
   \<and> MCS_AtomMap tk0 rdkit_FindMCS_defaults lig1 ref0 (Fin 1)
       = Inl (Exception ''ERROR: No MCS found!'')
   \<and> init tk0 rdkit_FindMCS_defaults h_far 0 1 ''receptor.pdb'' kw0
       = Inl (Exception ''ERROR: No MCS found!'')"
proof -
  have r: "matches_in_range ref0 [[0, 1], [1, 0]]"
    by (simp add: matches_in_range_def ref0_def)
  have l: "matches_in_range lig1 [[0, 1], [1, 0], [1, 2], [2, 1]]"
    by (simp add: matches_in_range_def lig1_def)
  have n: "list_all (\<lambda>c. \<not> within_tolerance (toolkit_distance tk0) lig1 ref0 (Fin 1) c)
             (List.product [[0, 1], [1, 0]] [[0, 1], [1, 0], [1, 2], [2, 1]])"
    by (simp add: within_tolerance_def toolkit_distance_def atom_pos_def tk0_def lig1_def
          ref0_def b64_axis_distance)
  have gr: "GetSubstructMatches tk0 ref0
              (FindMCS tk0 (mcs_call_args rdkit_FindMCS_defaults) lig1 ref0) False
            = [[0, 1], [1, 0]]"
    by (simp add: tk0_def ref0_def)
  have gl: "GetSubstructMatches tk0 lig1
              (FindMCS tk0 (mcs_call_args rdkit_FindMCS_defaults) lig1 ref0) False
            = [[0, 1], [1, 0], [1, 2], [2, 1]]"
    by (simp add: tk0_def lig1_def)
  have o: "lig1 = objs h_far 0" "ref0 = objs h_far 1"
    by (simp_all add: h_far_def)
  have t: "Fin 1 = (case kw_distTol kw0 of None \<Rightarrow> Fin 1 | Some t \<Rightarrow> t)"
    by (simp add: kw0_def)
  have "\<forall>c \<in> set (List.product [[0, 1], [1, 0]] [[0, 1], [1, 0], [1, 2], [2, 1]]).
          \<not> within_tolerance (toolkit_distance tk0) lig1 ref0 (Fin 1) c"
    using n unfolding list_all_iff .
  from MCS_AtomMap_no_match_raises[OF o t gr[symmetric] gl[symmetric] r l this,
         of "''receptor.pdb''"] r l n
  show ?thesis by simp
qed

text \<open>
  With the Euclidean distance of the stored positions the statement fails. The first atom
  of \<open>lig_tiny\<close> is farther than \<open>tol_tiny\<close> from the first reference atom, so no
  combination has every Euclidean distance below the tolerance; the square of the
  difference underflows, the computed distance is 0, and \<open>_MCS_AtomMap\<close> returns the
  first combination.
\<close>

theorem MCS_AtomMap_accepts_without_euclidean_match:
  "list_all (\<lambda>c. \<not> within_tolerance euclidean_distance lig_tiny ref0 (Fin tol_tiny) c)
       (List.product [[0, 1], [1, 0]] [[0, 1], [1, 0]])
   \<and> MCS_AtomMap tk0 rdkit_FindMCS_defaults lig_tiny ref0 (Fin tol_tiny)
       = Inr [(0, 0), (1, 1)]"
proof -
  have tp: "0 < tol_tiny" by (simp add: tol_tiny_def)
  have ge: "\<not> \<bar>c1e200\<bar> < tol_tiny" by (simp add: c1e200_def tol_tiny_def)
  have three: "\<not> 3 < tol_tiny" by (simp add: tol_tiny_def)
  have e: "list_all (\<lambda>c. \<not> within_tolerance euclidean_distance lig_tiny ref0 (Fin tol_tiny) c)
             (List.product [[0, 1], [1, 0]] [[0, 1], [1, 0]])"
    using ge three
    by (simp add: within_tolerance_def atom_pos_def lig_tiny_def ref0_def euclidean_axis
          del: euclidean_distance.simps)
  have c: "MCS_AtomMap tk0 rdkit_FindMCS_defaults lig_tiny ref0 (Fin tol_tiny)
             = Inr [(0, 0), (1, 1)]"
    using tp
    by (simp add: MCS_AtomMap_def tk0_def lig_tiny_def ref0_def GetConformer_def
          GetAtomPosition_def b64_axis_distance b64_length_tiny)
  from e c show ?thesis by simp
qed

text \<open>
  C3. Tolerance monotonicity: a construction that fails for want of a match at the
  tolerance \<open>T2\<close> fails the same way at every tolerance \<open>T1 \<le> T2\<close>.
\<close>

theorem MCS_AtomMap_tolerance_monotone:
  assumes "float_le T1 T2"
    and "MCS_AtomMap tk defaults ligand ref T2 = Inl (Exception ''ERROR: No MCS found!'')"
  shows "MCS_AtomMap tk defaults ligand ref T1 = Inl (Exception ''ERROR: No MCS found!'')"
  using assms(2) unfolding MCS_AtomMap_def Let_def
  by (rule ref_loop_mono[OF assms(1)])

theorem MCS_AtomMap_tolerance_monotone_witness:
  "float_le (Fin (1/2)) (Fin 1)
   \<and> MCS_AtomMap tk0 rdkit_FindMCS_defaults lig1 ref0 (Fin 1)
       = Inl (Exception ''ERROR: No MCS found!'')
   \<and> MCS_AtomMap tk0 rdkit_FindMCS_defaults lig1 ref0 (Fin (1/2))
       = Inl (Exception ''ERROR: No MCS found!'')"
proof -
  have le: "float_le (Fin (1/2)) (Fin 1)" by simp
  have f: "MCS_AtomMap tk0 rdkit_FindMCS_defaults lig1 ref0 (Fin 1)
             = Inl (Exception ''ERROR: No MCS found!'')"
    by (simp add: MCS_AtomMap_def tk0_def lig1_def ref0_def GetConformer_def
          GetAtomPosition_def b64_axis_distance)
  from MCS_AtomMap_tolerance_monotone[OF le f] le f show ?thesis by simp
qed

text \<open>
  C5. The call of \<^verbatim>\<open>rdFMCS.FindMCS\<close> sets \<^verbatim>\<open>completeRingsOnly\<close> and clears
  \<^verbatim>\<open>matchValences\<close>; it passes neither a bond nor an atom comparison, so both stay what
  the toolkit makes them.
\<close>

theorem mcs_call_args_keywords:
  "completeRingsOnly (mcs_call_args defaults) = True
   \<and> matchValences (mcs_call_args defaults) = False
   \<and> bondCompare (mcs_call_args defaults) = bondCompare defaults
   \<and> atomCompare (mcs_call_args defaults) = atomCompare defaults
   \<and> ringMatchesRingOnly (mcs_call_args defaults) = ringMatchesRingOnly defaults
   \<and> MCS_AtomMap tk defaults ligand ref distTol =
       ref_loop tk ligand ref distTol
         (GetSubstructMatches tk ref
            (FindMCS tk (defaults\<lparr>completeRingsOnly := True, matchValences := False\<rparr>) ligand ref)
            False)
         (GetSubstructMatches tk ligand
            (FindMCS tk (defaults\<lparr>completeRingsOnly := True, matchValences := False\<rparr>) ligand ref)
            False)"
  by (simp add: mcs_call_args_def MCS_AtomMap_def Let_def)

text \<open>
  With the defaults RDKit documents, the search the call starts compares bond orders and
  elements: it is not a topology-only match.
\<close>

theorem mcs_bond_order_compared:
  "bondCompare (mcs_call_args rdkit_FindMCS_defaults) = BondCompareOrder
   \<and> bondCompare (mcs_call_args rdkit_FindMCS_defaults) \<noteq> BondCompareAny
   \<and> atomCompare (mcs_call_args rdkit_FindMCS_defaults) = AtomCompareElements"
  by (simp add: mcs_call_args_def rdkit_FindMCS_defaults_def)

section \<open>The claims on embedding\<close>

text \<open>
  C4. \<^verbatim>\<open>_embed\<close> does not look at the status of \<^verbatim>\<open>EmbedMolecule\<close>: the copy, as
  the embedding call left it, goes to the alignment at a new address, and \<^verbatim>\<open>_embed\<close>
  ends as the alignment does, with its exception or with the address of the aligned copy.
  When the embedding fails with status \<open>-1\<close> and leaves the copy without conformer,
  and the alignment raises \<^verbatim>\<open>ValueError\<close> for a molecule without conformer,
  \<^verbatim>\<open>_embed\<close> raises that \<^verbatim>\<open>ValueError\<close> and returns no structure.
\<close>

theorem embed_failure_is_alignment_error:
  assumes "GetConformerId (objs h ligand) 0 = Inr ligConf"
    and "coordMap_loop ligConf (mappingRefToLig self) Map.empty = Inr coordMap"
    and "copy = fst (EmbedMolecule tk (objs h ligand) coordMap seed)"
    and "h2 = h\<lparr>objs := (objs h)(next_addr h := copy), next_addr := Suc (next_addr h)\<rparr>"
  shows "embed tk self h ligand seed =
           (case AlignMol tk copy (objs h2 (reference_substructure self))
                   (mappingLigToRef self) of
              Inl e \<Rightarrow> (h2, Inl e)
            | Inr aligned \<Rightarrow>
                (h2\<lparr>objs := (objs h2)(next_addr h := aligned)\<rparr>, Inr (next_addr h)))
       \<and> (snd (EmbedMolecule tk (objs h ligand) coordMap seed) = -1
            \<and> conformers copy = []
            \<and> (\<forall>prb r atomMap. conformers prb = [] \<longrightarrow>
                   AlignMol tk prb r atomMap = Inl ValueError)
          \<longrightarrow> embed tk self h ligand seed = (h2, Inl ValueError))"
proof -
  have h2': "h2 = (fst (deepcopy h ligand))
                    \<lparr>objs := (objs (fst (deepcopy h ligand)))(snd (deepcopy h ligand) := copy)\<rparr>"
    unfolding assms(4) by (simp add: deepcopy_def)
  have first: "embed tk self h ligand seed =
           (case AlignMol tk copy (objs h2 (reference_substructure self))
                   (mappingLigToRef self) of
              Inl e \<Rightarrow> (h2, Inl e)
            | Inr aligned \<Rightarrow>
                (h2\<lparr>objs := (objs h2)(next_addr h := aligned)\<rparr>, Inr (next_addr h)))"
  proof -
    have "embed tk self h ligand seed =
            (let r = alignToRef tk self h2 (next_addr h)
             in (fst r, case snd r of Inl e \<Rightarrow> Inl e | Inr u \<Rightarrow> Inr (next_addr h)))"
      unfolding h2' using embed_success_path[OF assms(1,2), of tk seed] assms(3)
      by (simp add: Let_def deepcopy_snd deepcopy_objs)
    also have "\<dots> =
           (case AlignMol tk copy (objs h2 (reference_substructure self))
                   (mappingLigToRef self) of
              Inl e \<Rightarrow> (h2, Inl e)
            | Inr aligned \<Rightarrow>
                (h2\<lparr>objs := (objs h2)(next_addr h := aligned)\<rparr>, Inr (next_addr h)))"
      by (simp add: alignToRef_def Let_def assms(4) split: sum.split)
    finally show ?thesis .
  qed
  then show ?thesis by simp
qed

theorem embed_failure_is_alignment_error_witness:
  "GetConformerId (objs h0 0) 0
     = Inr [(Fin 7, Fin 0, Fin 0), (Fin 0, Fin 0, Fin 0), (Fin 3, Fin 0, Fin 0)]
   \<and> coordMap_loop [(Fin 7, Fin 0, Fin 0), (Fin 0, Fin 0, Fin 0), (Fin 3, Fin 0, Fin 0)]
         (mappingRefToLig gen0) Map.empty
       = Inr (Map.empty(1 \<mapsto> (Fin 0, Fin 0, Fin 0), 2 \<mapsto> (Fin 3, Fin 0, Fin 0)))
   \<and> EmbedMolecule tk_fail_clear (objs h0 0)
         (Map.empty(1 \<mapsto> (Fin 0, Fin 0, Fin 0), 2 \<mapsto> (Fin 3, Fin 0, Fin 0))) 42
       = (lig0\<lparr>conformers := []\<rparr>, -1)
   \<and> embed tk_fail_clear gen0 h0 0 42
       = (h0\<lparr>objs := (objs h0)(2 := lig0\<lparr>conformers := []\<rparr>), next_addr := 3\<rparr>,
          Inl ValueError)"
proof -
  have c: "GetConformerId (objs h0 0) 0
             = Inr [(Fin 7, Fin 0, Fin 0), (Fin 0, Fin 0, Fin 0), (Fin 3, Fin 0, Fin 0)]"
    by (simp add: GetConformerId_def h0_def lig0_def)
  have m: "coordMap_loop [(Fin 7, Fin 0, Fin 0), (Fin 0, Fin 0, Fin 0), (Fin 3, Fin 0, Fin 0)]
             (mappingRefToLig gen0) Map.empty
           = Inr (Map.empty(1 \<mapsto> (Fin 0, Fin 0, Fin 0), 2 \<mapsto> (Fin 3, Fin 0, Fin 0)))"
    by (simp add: gen0_def GetAtomPosition_def)
  have e: "EmbedMolecule tk_fail_clear (objs h0 0)
             (Map.empty(1 \<mapsto> (Fin 0, Fin 0, Fin 0), 2 \<mapsto> (Fin 3, Fin 0, Fin 0))) 42
           = (lig0\<lparr>conformers := []\<rparr>, -1)"
    by (simp add: tk_fail_clear_def h0_def)
  have cp: "lig0\<lparr>conformers := []\<rparr>
              = fst (EmbedMolecule tk_fail_clear (objs h0 0)
                  (Map.empty(1 \<mapsto> (Fin 0, Fin 0, Fin 0), 2 \<mapsto> (Fin 3, Fin 0, Fin 0))) 42)"
    by (simp add: tk_fail_clear_def h0_def)
  have hh: "h0\<lparr>objs := (objs h0)(2 := lig0\<lparr>conformers := []\<rparr>), next_addr := 3\<rparr>
              = h0\<lparr>objs := (objs h0)(next_addr h0 := lig0\<lparr>conformers := []\<rparr>),
                    next_addr := Suc (next_addr h0)\<rparr>"
    by (simp add: h0_def)
  have al: "\<forall>prb r atomMap. conformers prb = [] \<longrightarrow>
              AlignMol tk_fail_clear prb r atomMap = Inl ValueError"
    by (simp add: tk_fail_clear_def tk0_def)
  from embed_failure_is_alignment_error[OF c m cp hh] e al c m
  show ?thesis by simp
qed

text \<open>
  The failure is not a condition of its own: a failed embedding of \<open>lig0\<close> and a ligand
  that has no conformer, with an embedding that succeeds, end \<^verbatim>\<open>_embed\<close> with the same
  \<^verbatim>\<open>ValueError\<close>.
\<close>

theorem embed_failure_not_distinct:
  "snd (EmbedMolecule tk_fail_clear lig0
          (Map.empty(1 \<mapsto> (Fin 0, Fin 0, Fin 0), 2 \<mapsto> (Fin 3, Fin 0, Fin 0))) 42) = -1
   \<and> snd (embed tk_fail_clear gen0 h0 0 42) = Inl ValueError
   \<and> snd (EmbedMolecule tk0 (lig0\<lparr>conformers := []\<rparr>) Map.empty 42) = 0
   \<and> snd (embed tk0 gen0 h_noconf 0 42) = Inl ValueError"
  by (simp add: embed_def alignToRef_def deepcopy_def tk_fail_clear_def tk0_def
        gen0_def h0_def h_noconf_def lig0_def ref0_def GetConformerId_def GetAtomPosition_def)

text \<open>
  C8. \<^verbatim>\<open>_embed\<close> leaves the molecule at the ligand's address as it was, whether it
  returns or raises, and what it returns is the address of a new object.
\<close>

theorem embed_preserves_ligand:
  assumes "ligand < next_addr h"
  shows "objs (fst (embed tk self h ligand seed)) ligand = objs h ligand
       \<and> (case snd (embed tk self h ligand seed) of
            Inl e \<Rightarrow> True
          | Inr l_embed \<Rightarrow> l_embed = next_addr h \<and> l_embed \<noteq> ligand)"
proof (cases "GetConformerId (objs h ligand) 0")
  case (Inl e)
  then show ?thesis by (simp add: embed_def)
next
  case (Inr ligConf)
  show ?thesis
  proof (cases "coordMap_loop ligConf (mappingRefToLig self) Map.empty")
    case (Inl e)
    with Inr show ?thesis by (simp add: embed_def)
  next
    case (Inr coordMap)
    from assms have ne: "ligand \<noteq> next_addr h" by simp
    define h1 where "h1 = fst (deepcopy h ligand)"
    define h2 where "h2 = h1\<lparr>objs := (objs h1)(next_addr h :=
                          fst (EmbedMolecule tk (objs h1 (next_addr h)) coordMap seed))\<rparr>"
    define r where "r = alignToRef tk self h2 (next_addr h)"
    have e: "embed tk self h ligand seed =
               (fst r, case snd r of Inl e \<Rightarrow> Inl e | Inr u \<Rightarrow> Inr (next_addr h))"
      unfolding r_def h2_def h1_def
      using embed_success_path[OF \<open>GetConformerId (objs h ligand) 0 = Inr ligConf\<close> Inr]
      by (simp add: Let_def deepcopy_snd)
    have "objs (fst r) ligand = objs h2 ligand"
      unfolding r_def by (rule alignToRef_frame[OF ne])
    also have "\<dots> = objs h ligand"
      using ne by (simp add: h2_def h1_def deepcopy_objs)
    finally have f: "objs (fst r) ligand = objs h ligand" .
    show ?thesis
      using f ne by (simp add: e split: sum.split)
  qed
qed

theorem embed_preserves_ligand_witness:
  "(0::nat) < next_addr h0
   \<and> objs (fst (embed tk0 gen0 h0 0 42)) 0 = lig0
   \<and> snd (embed tk0 gen0 h0 0 42) = Inr 2
   \<and> conformers (objs (fst (embed tk0 gen0 h0 0 42)) 2) = [[(Fin 0, Fin 0, Fin 0), (Fin 0, Fin 0, Fin 0), (Fin 3, Fin 0, Fin 0)]]"
proof -
  have a: "(0::nat) < next_addr h0" by (simp add: h0_def)
  have r: "snd (embed tk0 gen0 h0 0 42) = Inr 2"
    by (simp add: embed_def alignToRef_def deepcopy_def tk0_def
        gen0_def h0_def lig0_def ref0_def GetConformerId_def GetAtomPosition_def)
  have c: "conformers (objs (fst (embed tk0 gen0 h0 0 42)) 2) = [[(Fin 0, Fin 0, Fin 0), (Fin 0, Fin 0, Fin 0), (Fin 3, Fin 0, Fin 0)]]"
    by (simp add: embed_def alignToRef_def deepcopy_def tk0_def
        gen0_def h0_def lig0_def ref0_def GetConformerId_def GetAtomPosition_def upt_rec)
  have "objs h0 0 = lig0" by (simp add: h0_def)
  with embed_preserves_ligand[OF a, of tk0 gen0 42] a r c show ?thesis by simp
qed

section \<open>The claims on minimisation\<close>

text \<open>
  C6. With a force field that never reports convergence the loop of \<^verbatim>\<open>_minimize\<close>
  calls \<^verbatim>\<open>Minimize\<close> eleven times, not ten: the call stands before the test of the counter.
  By \<open>minimize_loop_calls_le\<close> eleven is the most, and by \<open>minimize_loop_converged\<close> the
  loop stops at the first call that reports convergence.
\<close>

theorem minimize_loop_eleven_batches:
  "snd (minimize_loop tk_noconv (minimize_constraints gen0 ff_empty) lig0 10 0) = 11"
  by (simp add: minimize_loop_unfold Minimize_tk_noconv del: minimize_loop.simps)

text \<open>
  C7. For the pairing \<open>[(0, 1), (1, 2)]\<close> of reference and ligand indices the restraints of
  \<^verbatim>\<open>_minimize\<close> go to the atoms 0 and 1, the reference indices, while the matched
  ligand atoms are 1 and 2: the unmatched ligand atom 0 is pinned and the matched atom 2
  is free.
\<close>

theorem minimize_constraints_reference_indices:
  "map fst (constraints (minimize_constraints gen0 ff_empty)) = [0, 1]
   \<and> map snd (mappingRefToLig gen0) = [1, 2]"
  by (simp add: minimize_constraints_def gen0_def ff_empty_def UFFAddPositionConstraint_def)

section \<open>The claim on reading molecules\<close>

text \<open>
  C10. \<^verbatim>\<open>MolFromInput\<close> ends with \<^verbatim>\<open>SystemExit\<close> on a path that is no file, with
  \<^verbatim>\<open>TypeError\<close> on a file whose extension is none of mol, mol2, pdb and sdf, and
  returns \<open>None\<close> without raising when the extension is known and its reader yields no
  molecule.
\<close>

theorem MolFromInput_errors:
  "(\<not> isfile env p1 \<longrightarrow> MolFromInput env p1 = Inl SystemExit)
   \<and> (isfile env p2 \<and> mol_format_of p2 \<noteq> [] \<and>
        mol_format_of p2 \<notin> {''mol'', ''mol2'', ''pdb'', ''sdf''}
        \<longrightarrow> MolFromInput env p2 = Inl TypeError)
   \<and> (isfile env p3 \<and> map_of (FILE_PARSERS env) (mol_format_of p3) = Some reader \<and>
        reader p3 = Inr None
        \<longrightarrow> MolFromInput env p3 = Inr None)"
proof (intro conjI impI)
  assume "\<not> isfile env p1"
  then show "MolFromInput env p1 = Inl SystemExit"
    by (simp add: MolFromInput_def)
next
  assume a: "isfile env p2 \<and> mol_format_of p2 \<noteq> [] \<and>
        mol_format_of p2 \<notin> {''mol'', ''mol2'', ''pdb'', ''sdf''}"
  then have "map_of (FILE_PARSERS env) (mol_format_of p2) = None"
    by (simp add: FILE_PARSERS_def)
  with a show "MolFromInput env p2 = Inl TypeError"
    by (simp add: MolFromInput_def Let_def)
next
  assume a: "isfile env p3 \<and> map_of (FILE_PARSERS env) (mol_format_of p3) = Some reader \<and>
        reader p3 = Inr None"
  then have "mol_format_of p3 \<noteq> []"
    by (auto simp add: FILE_PARSERS_def split: if_splits)
  with a show "MolFromInput env p3 = Inr None"
    by (simp add: MolFromInput_def Let_def)
qed

theorem MolFromInput_errors_witness:
  "\<not> isfile env0 ''missing.sdf''
   \<and> MolFromInput env0 ''missing.sdf'' = Inl SystemExit
   \<and> isfile env0 ''data/lig.xyz'' \<and> mol_format_of ''data/lig.xyz'' = ''xyz''
   \<and> MolFromInput env0 ''data/lig.xyz'' = Inl TypeError
   \<and> isfile env0 ''data/lig.PDB'' \<and> mol_format_of ''data/lig.PDB'' = ''pdb''
   \<and> MolFromPDBFile env0 ''data/lig.PDB'' = Inr None
   \<and> MolFromInput env0 ''data/lig.PDB'' = Inr None"
proof -
  have f2: "mol_format_of ''data/lig.xyz'' = ''xyz''"
    by code_simp
  have f3: "mol_format_of ''data/lig.PDB'' = ''pdb''"
    by code_simp
  have i1: "\<not> isfile env0 ''missing.sdf''" by (simp add: env0_def)
  have i2: "isfile env0 ''data/lig.xyz''" by (simp add: env0_def)
  have i3: "isfile env0 ''data/lig.PDB''" by (simp add: env0_def)
  have r3: "map_of (FILE_PARSERS env0) (mol_format_of ''data/lig.PDB'') = Some (MolFromPDBFile env0)"
    by (simp add: f3 FILE_PARSERS_def)
  have n3: "MolFromPDBFile env0 ''data/lig.PDB'' = Inr None" by (simp add: env0_def)
  from MolFromInput_errors[of env0 "''missing.sdf''" "''data/lig.xyz''" "''data/lig.PDB''"
         "MolFromPDBFile env0"] f2 f3 i1 i2 i3 r3 n3
  show ?thesis by simp
qed

end
